theory Spec2Isabelle
  imports Main "HOL-Library.Sublist"
begin

section \<open>The host page and the client object\<close>

text \<open>
  The development embeds \<^verbatim>\<open>src/index.ts\<close>, the class \<^verbatim>\<open>SynapsClient\<close>.
  The class works on two things: its own fields (\<^verbatim>\<open>this\<close>) and the browser
  (\<^verbatim>\<open>document\<close>, \<^verbatim>\<open>window\<close>). Both are made explicit. The browser is the record
  \<open>env\<close>; the client object extends it to the record \<open>world\<close>, so that a method of the
  class is a function from a world to a world.

  A JavaScript exception does not roll anything back: what a method did before the
  \<^verbatim>\<open>throw\<close> stays done. A method that can throw therefore returns the world it
  leaves behind together with the exception, if any.
\<close>

datatype error =
  Error string      \<comment> \<open>\<^verbatim>\<open>throw new Error(message)\<close>\<close>
  | NotFoundError   \<comment> \<open>the DOMException of \<^verbatim>\<open>removeChild\<close> on a node that is not a child\<close>
  | TypeError       \<comment> \<open>a property read on \<^verbatim>\<open>null\<close> or \<^verbatim>\<open>undefined\<close>\<close>

type_synonym node = nat
type_synonym handle = nat
type_synonym callback = nat

abbreviation (input) html_node :: node where "html_node \<equiv> 0"
abbreviation (input) head_node :: node where "head_node \<equiv> 1"
abbreviation (input) body_node :: node where "body_node \<equiv> 2"

text \<open>
  The listeners the class registers on \<^verbatim>\<open>window\<close> for \<^verbatim>\<open>'message'\<close>: the one of
  \<^verbatim>\<open>_initLoad\<close>, which closes over its own local variable \<^verbatim>\<open>eventInited\<close> (a cell of
  the store \<open>eventInited\<close> below), and the one of \<^verbatim>\<open>_initEvents\<close>.
\<close>

datatype listener = LoadListener nat | EventsListener

text \<open>
  The data of an inbound message: \<^verbatim>\<open>null\<close>/\<^verbatim>\<open>undefined\<close>, or a value whose
  \<^verbatim>\<open>type\<close> property is a string or is missing.
\<close>

datatype message = NullData | Data "string option"

record env =
  next_node :: node                              \<comment> \<open>the next node \<^verbatim>\<open>createElement\<close> returns\<close>
  tag_name :: "node \<rightharpoonup> string"
  parent :: "node \<rightharpoonup> node"                       \<comment> \<open>the tree: the parent of a node, if attached\<close>
  attrs :: "node \<Rightarrow> string \<rightharpoonup> string"            \<comment> \<open>\<^verbatim>\<open>setAttribute\<close>/\<^verbatim>\<open>removeAttribute\<close>\<close>
  inline_style :: "node \<Rightarrow> string \<rightharpoonup> string"     \<comment> \<open>\<^verbatim>\<open>element.style\<close>\<close>
  inner_text :: "node \<rightharpoonup> string"
  by_id :: "string \<rightharpoonup> node"                      \<comment> \<open>\<^verbatim>\<open>document.getElementById\<close>, the host's elements\<close>
  message_listeners :: "listener list"           \<comment> \<open>on \<^verbatim>\<open>window\<close>, in registration order\<close>
  click_listeners :: nat                         \<comment> \<open>on \<^verbatim>\<open>document\<close>, registered by \<^verbatim>\<open>_initModal\<close>\<close>
  pending_timers :: nat                          \<comment> \<open>pending \<^verbatim>\<open>setTimeout(() => this._initEmbed(), 500)\<close>\<close>
  eventInited :: "nat \<Rightarrow> bool"                   \<comment> \<open>the closure variables of \<^verbatim>\<open>_initLoad\<close>\<close>
  next_cell :: nat
  active_proxies :: "handle list"                \<comment> \<open>proxies installed and not uninstalled\<close>
  next_handle :: handle

text \<open>
  The colours as the interface \<^verbatim>\<open>Color\<close> declares them: \<^verbatim>\<open>primary\<close> a string,
  \<^verbatim>\<open>secondary\<close> a number; either may be missing.
\<close>

record colors =
  primary :: "string option"
  secondary :: "int option"

record options =
  o_type :: "string option"
  o_element_id :: "string option"
  o_colors :: "colors option"
  o_lang :: "string option"
  o_tier :: "int option"

record world = env +
  baseURL :: string
  sessionID :: string
  service :: string
  elementID :: "string option"
  colors :: "colors option"
  type :: string
  lang :: string
  tier :: "int option"
  callbacks :: "string \<rightharpoonup> callback"
  isOpen :: bool
  alreadyInit :: bool
  styles :: string
  iframe :: "node option"
  loaderElement :: "node option"
  loader :: "node option"
  providerProxyUninstaller :: "handle option"

subsection \<open>JavaScript values\<close>

text \<open>
  An optional string is falsy when it is missing or empty, an optional number when it is
  missing or zero. Numbers are the integers (the tier is documented as an int); a
  template literal prints them in decimal.
\<close>

definition truthy_str :: "string option \<Rightarrow> bool" where
  "truthy_str s = (case s of None \<Rightarrow> False | Some x \<Rightarrow> x \<noteq> [])"

definition truthy_num :: "int option \<Rightarrow> bool" where
  "truthy_num n = (case n of None \<Rightarrow> False | Some x \<Rightarrow> x \<noteq> 0)"

definition digit :: "nat \<Rightarrow> char" where
  "digit d = ''0123456789'' ! d"

fun decimal :: "nat \<Rightarrow> string" where
  "decimal n = (if n < 10 then [digit n] else decimal (n div 10) @ [digit (n mod 10)])"

text \<open>
  \<^verbatim>\<open>`${n}`\<close> for an integer \<open>n\<close>. This is what JavaScript prints for the safe
  integers (up to \<open>2 ^ 53 - 1\<close> in absolute value); beyond them a JavaScript number
  rounds its digits and, from \<open>10 ^ 21\<close> on, is printed with an exponent. The numbers of
  a configuration, a tier and a colour code, are taken to be safe integers.
\<close>

definition number_to_string :: "int \<Rightarrow> string" where
  "number_to_string i = (if 0 \<le> i then decimal (nat i) else CHR ''-'' # decimal (nat (- i)))"

subsection \<open>The document\<close>

text \<open>
  The page is assumed to have its \<^verbatim>\<open>html\<close>, \<^verbatim>\<open>head\<close> and \<^verbatim>\<open>body\<close> elements, so
  \<^verbatim>\<open>document.getElementsByTagName('html')[0]\<close>, \<^verbatim>\<open>document.head\<close> and
  \<^verbatim>\<open>document.body\<close> are the three fixed nodes. \<^verbatim>\<open>appendChild\<close> moves the child under
  its new parent; \<^verbatim>\<open>removeChild\<close> throws a \<^verbatim>\<open>NotFoundError\<close> when the node is not a
  child of the parent it is removed from, as the DOM standard has it.
\<close>

definition createElement :: "string \<Rightarrow> 'a env_scheme \<Rightarrow> node \<times> 'a env_scheme" where
  "createElement t w =
     (next_node w, w\<lparr>next_node := Suc (next_node w), tag_name := (tag_name w)(next_node w \<mapsto> t)\<rparr>)"

definition appendChild :: "node \<Rightarrow> node \<Rightarrow> 'a env_scheme \<Rightarrow> 'a env_scheme" where
  "appendChild p c w = w\<lparr>parent := (parent w)(c \<mapsto> p)\<rparr>"

definition removeChild :: "node \<Rightarrow> node \<Rightarrow> 'a env_scheme \<Rightarrow> error + 'a env_scheme" where
  "removeChild p c w =
     (if parent w c = Some p then Inr (w\<lparr>parent := (parent w)(c := None)\<rparr>) else Inl NotFoundError)"

definition setAttribute :: "node \<Rightarrow> string \<Rightarrow> string \<Rightarrow> 'a env_scheme \<Rightarrow> 'a env_scheme" where
  "setAttribute n k v w = w\<lparr>attrs := (attrs w)(n := (attrs w n)(k \<mapsto> v))\<rparr>"

definition removeAttribute :: "node \<Rightarrow> string \<Rightarrow> 'a env_scheme \<Rightarrow> 'a env_scheme" where
  "removeAttribute n k w = w\<lparr>attrs := (attrs w)(n := (attrs w n)(k := None))\<rparr>"

definition setProperty :: "node \<Rightarrow> string \<Rightarrow> string \<Rightarrow> 'a env_scheme \<Rightarrow> 'a env_scheme" where
  "setProperty n k v w = w\<lparr>inline_style := (inline_style w)(n := (inline_style w n)(k \<mapsto> v))\<rparr>"

definition removeProperty :: "node \<Rightarrow> string \<Rightarrow> 'a env_scheme \<Rightarrow> 'a env_scheme" where
  "removeProperty n k w = w\<lparr>inline_style := (inline_style w)(n := (inline_style w n)(k := None))\<rparr>"

text \<open>
  \<^verbatim>\<open>iframe.contentWindow\<close> is an object when the frame is in the document and
  \<^verbatim>\<open>null\<close> otherwise: the walk from the node up to \<^verbatim>\<open>html\<close>, bounded by the number
  of nodes.
\<close>

fun connected :: "nat \<Rightarrow> (node \<rightharpoonup> node) \<Rightarrow> node \<Rightarrow> bool" where
  "connected 0 p n = (n = html_node)"
| "connected (Suc k) p n =
     (n = html_node \<or> (case p n of None \<Rightarrow> False | Some m \<Rightarrow> connected k p m))"

definition contentWindow :: "'a env_scheme \<Rightarrow> node \<Rightarrow> bool" where
  "contentWindow w f = connected (next_node w) (parent w) f"

text \<open>
  A page before the script runs: the three fixed elements, and one element under
  \<^verbatim>\<open>body\<close> for each of the given ids.
\<close>

definition page :: "string list \<Rightarrow> env" where
  "page ids =
     \<lparr>next_node = 3 + length ids,
      tag_name = (\<lambda>n. if n = html_node then Some ''html'' else if n = head_node then Some ''head''
                       else if n = body_node then Some ''body''
                       else if n < 3 + length ids then Some ''div'' else None),
      parent = (\<lambda>n. if n = head_node \<or> n = body_node then Some html_node
                     else if 3 \<le> n \<and> n < 3 + length ids then Some body_node else None),
      attrs = (\<lambda>n. Map.empty),
      inline_style = (\<lambda>n. Map.empty),
      inner_text = Map.empty,
      by_id = map_of (zip ids [3 ..< 3 + length ids]),
      message_listeners = [],
      click_listeners = 0,
      pending_timers = 0,
      eventInited = (\<lambda>k. False),
      next_cell = 0,
      active_proxies = [],
      next_handle = 0\<rparr>"

text \<open>
  The installer \<^verbatim>\<open>installProviderProxyFor\<close> is imported from the package
  \<^verbatim>\<open>@synaps-io/web3-provider\<close>.
  Modelled from the spec: the installer of the capability proxy, which is not part of
  this repository. It installs a proxy for the remote window and returns its
  uninstaller; calling the uninstaller removes that proxy. A proxy is identified by a
  fresh handle, and \<open>active_proxies\<close> lists the proxies installed and not yet removed.
\<close>

definition installProviderProxyFor :: "node \<Rightarrow> string \<Rightarrow> 'a env_scheme \<Rightarrow> handle \<times> 'a env_scheme" where
  "installProviderProxyFor f url w =
     (next_handle w,
      w\<lparr>next_handle := Suc (next_handle w), active_proxies := active_proxies w @ [next_handle w]\<rparr>)"

definition uninstall :: "handle \<Rightarrow> 'a env_scheme \<Rightarrow> 'a env_scheme" where
  "uninstall h w = w\<lparr>active_proxies := removeAll h (active_proxies w)\<rparr>"

section \<open>The class\<close>

subsection \<open>The constructor\<close>

definition sdk_styles :: string where
  "sdk_styles = ''.sdk-synaps-loader-modal{position:fixed;left:0;top:0;width:100%;height:100%;z-index:9999}.sdk-synaps-loader-embed{position:relative;left:0;top:0;width:100%;height:100%;z-index:9999}.sdk-synaps-loader-logo{background-image:url(https://storage.googleapis.com/synaps-static-assets/white-loader.svg),url(https://storage.googleapis.com/synaps-static-assets/synaps-logo-white.svg);background-size:75px,25px;background-repeat:no-repeat,no-repeat;background-position:center center,center center;background-color:rgb(0 0 0 / 50%)}.sdk-synaps-container{width:100%;height:100%;border-color:transparent;border-width:0;border-style:none;left:0;top:0;-webkit-tap-highlight-color:transparent}@media(max-width:700px){.sdk-synaps-container{width:98%}}''"

definition initStyle :: "world \<Rightarrow> world" where
  "initStyle w =
     (let (styleSheet, w1) = createElement ''style'' w;
          w2 = setAttribute styleSheet ''type'' ''text/css'' w1;
          w3 = w2\<lparr>inner_text := (inner_text w2)(styleSheet \<mapsto> styles w2)\<rparr>
      in appendChild head_node styleSheet w3)"

definition required_message :: string where
  \<open>required_message = ''"sessionID" and "service" are required.''\<close>

text \<open>
  \<^verbatim>\<open>new SynapsClient(sessionID, service, url)\<close> on the page \<open>e\<close>. An argument that is
  not passed is \<open>None\<close>. The \<^verbatim>\<open>throw\<close> is the first statement, so a failed construction
  leaves the page as it was. The fields the constructor does not assign
  (\<^verbatim>\<open>colors\<close>, \<^verbatim>\<open>iframe\<close>, \<^verbatim>\<open>loaderElement\<close>, \<^verbatim>\<open>loader\<close>,
  \<^verbatim>\<open>providerProxyUninstaller\<close>) are \<^verbatim>\<open>undefined\<close>.
\<close>

definition construct :: "string option \<Rightarrow> string option \<Rightarrow> string option \<Rightarrow> env \<Rightarrow> error + world" where
  "construct sid svc url e =
     (if \<not> truthy_str sid \<or> \<not> truthy_str svc then Inl (Error required_message)
      else Inr (initStyle
        \<lparr>next_node = next_node e, tag_name = tag_name e, parent = parent e, attrs = attrs e,
         inline_style = inline_style e, inner_text = inner_text e, by_id = by_id e,
         message_listeners = message_listeners e, click_listeners = click_listeners e,
         pending_timers = pending_timers e, eventInited = eventInited e,
         next_cell = next_cell e, active_proxies = active_proxies e,
         next_handle = next_handle e,
         baseURL = (if \<not> truthy_str url
                    then (if svc = Some ''corporate'' then ''https://verify-v3.synaps.io''
                          else ''https://verify.synaps.io'')
                    else the url),
         sessionID = the sid,
         service = the svc,
         elementID = None,
         colors = None,
         type = ''modal'',
         lang = ''en'',
         tier = None,
         callbacks = Map.empty,
         isOpen = False,
         alreadyInit = False,
         styles = sdk_styles,
         iframe = None,
         loaderElement = None,
         loader = None,
         providerProxyUninstaller = None\<rparr>))"

subsection \<open>The URL of the flow\<close>

definition formatURL :: "world \<Rightarrow> string" where
  "formatURL w =
     (let url = baseURL w @ ''?session_id='' @ sessionID w @ ''&service='' @ service w
                @ ''&type='' @ type w @ ''&lang='' @ (if lang w \<noteq> [] then lang w else ''en'');
          url = (case colors w of
                   None \<Rightarrow> url
                 | Some c \<Rightarrow> if truthy_str (primary c) then url @ ''&primary_color='' @ the (primary c)
                            else url);
          url = (case colors w of
                   None \<Rightarrow> url
                 | Some c \<Rightarrow> if truthy_num (secondary c)
                            then url @ ''&secondary='' @ number_to_string (the (secondary c))
                            else url);
          url = (if truthy_num (tier w) then url @ ''&tier='' @ number_to_string (the (tier w)) else url)
      in url)"

subsection \<open>Opening and closing\<close>

text \<open>The seven attributes that \<^verbatim>\<open>openSession\<close> and \<^verbatim>\<open>getFlow\<close> set alike.\<close>

definition frame_attributes :: "node \<Rightarrow> string \<Rightarrow> world \<Rightarrow> world" where
  "frame_attributes f src w =
     (let w = setAttribute f ''src'' src w;
          w = setAttribute f ''allow'' ''microphone; camera; midi; encrypted-media; usb'' w;
          w = setAttribute f ''allowtransparency'' ''true'' w;
          w = setAttribute f ''allowfullscreen'' ''true'' w;
          w = setAttribute f ''frameborder'' ''none'' w;
          w = setAttribute f ''border'' ''0'' w;
          w = setAttribute f ''resize'' ''none'' w
      in w)"

definition modal_frame_style :: string where
  "modal_frame_style = ''z-index: 99999999; overflow: hidden auto; visibility: visible; margin: 0px; padding: 0px; position: fixed; border-color: transparent; border-width: 0; border-style: none; left: 0px; top: 0px; width: 100%; height: 100%; -webkit-tap-highlight-color: transparent;''"

definition getFlow :: "world \<Rightarrow> node option \<times> world" where
  "getFlow w =
     (case iframe w of
        None \<Rightarrow> (None, w)
      | Some f \<Rightarrow>
          (Some f,
           setAttribute f ''style'' ''height:0px;width:0px;position:absolute;''
             (frame_attributes f (formatURL w) w)))"

definition openSession :: "world \<Rightarrow> world" where
  "openSession w =
     (if isOpen w then w
      else
        let (l, w) = createElement ''div'' w;
            w = w\<lparr>loader := Some l\<rparr>;
            w = w\<lparr>loaderElement := Some body_node\<rparr>;
            w = setAttribute l ''class'' ''sdk-synaps-loader-modal sdk-synaps-loader-logo'' w;
            w = appendChild body_node l w;
            src = formatURL w;
            w = setProperty html_node ''overflow'' ''hidden'' w;
            w = w\<lparr>isOpen := True\<rparr>
        in case iframe w of
             None \<Rightarrow> w
           | Some f \<Rightarrow>
               appendChild body_node f
                 (setAttribute f ''style'' modal_frame_style (frame_attributes f src w)))"

definition closeFlow :: "world \<Rightarrow> world \<times> error option" where
  "closeFlow w =
     (let w = removeProperty html_node ''overflow'' w;
          w = removeProperty body_node ''overflow'' w;
          w = removeProperty html_node ''margin'' w;
          w = removeProperty body_node ''margin'' w;
          w = w\<lparr>isOpen := False\<rparr>
      in case (case iframe w of None \<Rightarrow> Inr w | Some f \<Rightarrow> removeChild body_node f w) of
           Inl e \<Rightarrow> (w, Some e)
         | Inr w \<Rightarrow>
             (case providerProxyUninstaller w of
                None \<Rightarrow> (w, None)
              | Some h \<Rightarrow> ((uninstall h w)\<lparr>providerProxyUninstaller := None\<rparr>, None)))"

definition on :: "string \<Rightarrow> callback \<Rightarrow> world \<Rightarrow> world" where
  "on t cb w = w\<lparr>callbacks := (callbacks w)(t \<mapsto> cb)\<rparr>"

subsection \<open>The two message listeners\<close>

text \<open>
  A callback is a function of the host page: it is known to the class by its identity
  only. What running it does is given from outside, as \<open>run\<close>: from the world in which
  the callback is called to the world it leaves, with the exception it throws, if any.
\<close>

type_synonym runner = "callback \<Rightarrow> world \<Rightarrow> world \<times> error option"

definition initEvents_handler :: "runner \<Rightarrow> message \<Rightarrow> world \<Rightarrow> world \<times> error option" where
  "initEvents_handler run m w =
     (case m of
        NullData \<Rightarrow> (w, Some TypeError)
      | Data t \<Rightarrow>
          if t \<notin> set [Some ''finish'', Some ''close''] then (w, None)
          else
            (case (if type w = ''modal'' then closeFlow w else (w, None)) of
               (w, Some e) \<Rightarrow> (w, Some e)
             | (w, None) \<Rightarrow>
                 (case callbacks w (the t) of
                    None \<Rightarrow> (w, None)
                  | Some cb \<Rightarrow> run cb w)))"

definition initEvents :: "world \<Rightarrow> world" where
  "initEvents w = w\<lparr>message_listeners := message_listeners w @ [EventsListener]\<rparr>"

text \<open>
  The listener of \<^verbatim>\<open>_initLoad\<close>, with \<open>k\<close> the cell of its \<^verbatim>\<open>eventInited\<close>.
  \<^verbatim>\<open>this.loaderElement?.removeChild(this.loader)\<close> is skipped when there is no loader
  element, and throws when the loader is no longer its child.
\<close>

definition initLoad_handler :: "nat \<Rightarrow> message \<Rightarrow> world \<Rightarrow> world \<times> error option" where
  "initLoad_handler k m w =
     (case m of
        NullData \<Rightarrow> (w, Some TypeError)
      | Data t \<Rightarrow>
          if t \<noteq> Some ''ready'' then (w, None)
          else
            (case (case loaderElement w of
                     None \<Rightarrow> Inr w
                   | Some le \<Rightarrow>
                       (case loader w of None \<Rightarrow> Inl TypeError | Some l \<Rightarrow> removeChild le l w)) of
               Inl e \<Rightarrow> (w, Some e)
             | Inr w \<Rightarrow>
                let w = (case iframe w of
                           None \<Rightarrow> w
                         | Some f \<Rightarrow>
                             if contentWindow w f
                             then (let (h, w) = installProviderProxyFor f (formatURL w) w
                                   in w\<lparr>providerProxyUninstaller := Some h\<rparr>)
                             else w);
                    w = (if type w = ''embed''
                         then (case iframe w of None \<Rightarrow> w | Some f \<Rightarrow> removeAttribute f ''style'' w)
                         else w);
                    w = (if \<not> eventInited w k
                         then (initEvents w)\<lparr>eventInited := (eventInited w)(k := True)\<rparr>
                         else w)
                in (w, None)))"

subsection \<open>Initialisation\<close>

text \<open>
  \<^verbatim>\<open>_initModal\<close> registers a click listener on the document; the listener opens the
  session when the configured button is clicked while the session is closed.
\<close>

definition initModal :: "world \<Rightarrow> world" where
  "initModal w = w\<lparr>click_listeners := Suc (click_listeners w)\<rparr>"

text \<open>
  \<^verbatim>\<open>_initEmbed\<close>: when the mount element is not in the page yet, the method schedules
  itself again. The second \<^verbatim>\<open>getElementById\<close> returns the element the first one
  found.
\<close>

definition initEmbed :: "world \<Rightarrow> world" where
  "initEmbed w =
     (if \<not> truthy_str (elementID w) then w
      else
        case by_id w (the (elementID w)) of
          None \<Rightarrow> w\<lparr>pending_timers := Suc (pending_timers w)\<rparr>
        | Some element \<Rightarrow>
            let (flow, w) = getFlow w;
                w = (case flow of
                       None \<Rightarrow> w
                     | Some f \<Rightarrow> setAttribute f ''class'' ''sdk-synaps-container'' w);
                w = (case flow of None \<Rightarrow> w | Some f \<Rightarrow> appendChild element f w);
                (l, w) = createElement ''div'' w;
                w = w\<lparr>loader := Some l\<rparr>;
                w = w\<lparr>loaderElement := Some element\<rparr>;
                w = setAttribute l ''class'' ''sdk-synaps-loader-embed sdk-synaps-loader-logo'' w;
                w = appendChild element l w
            in w\<lparr>isOpen := True\<rparr>)"

definition initLoad :: "world \<Rightarrow> world" where
  "initLoad w =
     (let w = (if type w = ''modal'' then initModal w else initEmbed w);
          k = next_cell w;
          w = w\<lparr>next_cell := Suc k, eventInited := (eventInited w)(k := False)\<rparr>
      in w\<lparr>message_listeners := message_listeners w @ [LoadListener k]\<rparr>)"

definition type_message :: string where
  \<open>type_message = ''The type must be either "modal" or "embed".''\<close>

text \<open>\<^verbatim>\<open>x || d\<close> on an optional string.\<close>

definition or_default :: "string option \<Rightarrow> string \<Rightarrow> string" where
  "or_default x d = (if truthy_str x then the x else d)"

text \<open>
  \<^verbatim>\<open>init(options)\<close>; \<open>None\<close> is a call without options. The empty object
  \<^verbatim>\<open>{}\<close> is a \<open>colors\<close> record with no field set.
\<close>

definition init :: "options option \<Rightarrow> world \<Rightarrow> world \<times> error option" where
  "init opts w =
     (if alreadyInit w then (w, None)
      else if (case opts of
                 None \<Rightarrow> False
               | Some opt \<Rightarrow> truthy_str (o_type opt) \<and> the (o_type opt) \<notin> set [''modal'', ''embed''])
      then (w, Some (Error type_message))
      else
        let w = w\<lparr>elementID := (case opts of None \<Rightarrow> None | Some opt \<Rightarrow> o_element_id opt)\<rparr>;
            w = w\<lparr>colors := Some (case (case opts of None \<Rightarrow> None | Some opt \<Rightarrow> o_colors opt) of
                                      None \<Rightarrow> \<lparr>primary = None, secondary = None\<rparr>
                                    | Some c \<Rightarrow> c)\<rparr>;
            w = w\<lparr>type := or_default (case opts of None \<Rightarrow> None | Some opt \<Rightarrow> o_type opt) ''modal''\<rparr>;
            w = w\<lparr>lang := or_default (case opts of None \<Rightarrow> None | Some opt \<Rightarrow> o_lang opt) ''en''\<rparr>;
            w = w\<lparr>tier := (case opts of None \<Rightarrow> None | Some opt \<Rightarrow> o_tier opt)\<rparr>;
            (f, w) = createElement ''iframe'' w;
            w = w\<lparr>iframe := Some f\<rparr>;
            w = (if \<not> truthy_str (elementID w)
                 then w\<lparr>elementID := Some (if type w = ''modal'' then ''synaps-btn'' else ''synaps-embed'')\<rparr>
                 else w);
            w = initLoad w
        in (w\<lparr>alreadyInit := True\<rparr>, None))"

subsection \<open>Events of the page\<close>

text \<open>
  A message posted to the window goes to every listener registered when the dispatch
  starts, in registration order. An exception of one listener is reported and does not
  stop the others; the reported exceptions are returned in order.
\<close>

definition call_listener :: "runner \<Rightarrow> listener \<Rightarrow> message \<Rightarrow> world \<Rightarrow> world \<times> error option" where
  "call_listener run l m w =
     (case l of LoadListener k \<Rightarrow> initLoad_handler k m w | EventsListener \<Rightarrow> initEvents_handler run m w)"

fun deliver_to :: "runner \<Rightarrow> listener list \<Rightarrow> message \<Rightarrow> world \<Rightarrow> world \<times> error list" where
  "deliver_to run [] m w = (w, [])"
| "deliver_to run (l # ls) m w =
     (case call_listener run l m w of
        (w, e) \<Rightarrow>
          (case deliver_to run ls m w of
             (w, es) \<Rightarrow> (w, (case e of None \<Rightarrow> [] | Some x \<Rightarrow> [x]) @ es)))"

definition deliver :: "runner \<Rightarrow> message \<Rightarrow> world \<Rightarrow> world \<times> error list" where
  "deliver run m w = deliver_to run (message_listeners w) m w"

text \<open>A pending timer of \<^verbatim>\<open>_initEmbed\<close> fires.\<close>

definition timer_fire :: "world \<Rightarrow> world" where
  "timer_fire w =
     (if pending_timers w = 0 then w else initEmbed (w\<lparr>pending_timers := pending_timers w - 1\<rparr>))"

section \<open>Specification-side definitions and sample sessions\<close>

text \<open>
  The URL as the specification words it: the parameters in their fixed order, each with
  its value when it is to be sent, joined after the base URL. It is compared with
  \<open>formatURL\<close> below.
\<close>

definition spec_params :: "world \<Rightarrow> (string \<times> string option) list" where
  "spec_params w =
     [(''session_id'', Some (sessionID w)),
      (''service'', Some (service w)),
      (''type'', Some (type w)),
      (''lang'', Some (if lang w = [] then ''en'' else lang w)),
      (''primary_color'',
         (case colors w of None \<Rightarrow> None | Some c \<Rightarrow> if truthy_str (primary c) then primary c else None)),
      (''secondary'',
         (case colors w of
            None \<Rightarrow> None
          | Some c \<Rightarrow> if truthy_num (secondary c) then map_option number_to_string (secondary c) else None)),
      (''tier'', if truthy_num (tier w) then map_option number_to_string (tier w) else None)]"

fun query_string :: "(string \<times> string option) list \<Rightarrow> string" where
  "query_string [] = []"
| "query_string ((k, None) # ps) = query_string ps"
| "query_string ((k, Some v) # ps) = ''&'' @ k @ ''='' @ v @ query_string ps"

definition spec_buildURL :: "world \<Rightarrow> string" where
  "spec_buildURL w = baseURL w @ ''?'' @ tl (query_string (spec_params w))"

text \<open>The host page layout is restored: no overflow or margin override on html and body.\<close>

definition layout_restored :: "world \<Rightarrow> bool" where
  "layout_restored w =
     (inline_style w html_node ''overflow'' = None \<and> inline_style w body_node ''overflow'' = None \<and>
      inline_style w html_node ''margin'' = None \<and> inline_style w body_node ''margin'' = None)"

text \<open>
  The session of the specification's URL example:
  \<^verbatim>\<open>new SynapsClient('abc', 'individual')\<close> on a page without further elements, then
  \<^verbatim>\<open>init({type: 'modal', lang: 'fr', tier: 3, colors: {primary: '#fff'}})\<close>.
\<close>

definition example_options :: options where
  "example_options =
     \<lparr>o_type = Some ''modal'', o_element_id = None,
      o_colors = Some \<lparr>primary = Some ''#fff'', secondary = None\<rparr>,
      o_lang = Some ''fr'', o_tier = Some 3\<rparr>"

definition new_client :: world where
  "new_client = projr (construct (Some ''abc'') (Some ''individual'') None (page []))"

definition example_session :: world where
  "example_session = fst (init (Some example_options) new_client)"

text \<open>The same client after \<^verbatim>\<open>init()\<close> without options: a modal session.\<close>

definition modal_session :: world where
  "modal_session = fst (init None new_client)"

text \<open>
  The host page mounts the frame itself:
  \<^verbatim>\<open>document.body.appendChild(client.getFlow())\<close>.
\<close>

definition host_mounted :: world where
  "host_mounted =
     (case getFlow modal_session of
        (None, w) \<Rightarrow> w
      | (Some f, w) \<Rightarrow> appendChild body_node f w)"

text \<open>A callback that does nothing.\<close>

definition idle :: runner where
  "idle cb w = (w, None)"

text \<open>
  Options that \<^verbatim>\<open>init\<close> accepts: the type is absent (not given, or empty) or one of the
  two modes.
\<close>

definition valid_options :: "options option \<Rightarrow> bool" where
  "valid_options opts =
     (case opts of
        None \<Rightarrow> True
      | Some opt \<Rightarrow>
          (if truthy_str (o_type opt) then the (o_type opt) \<in> set [''modal'', ''embed''] else True))"

definition popup_options :: options where
  "popup_options = example_options\<lparr>o_type := Some ''popup''\<rparr>"

definition embed_session :: world where
  "embed_session = fst (init (Some (example_options\<lparr>o_type := Some ''embed''\<rparr>)) new_client)"

text \<open>
  The modal session with a callback for \<^verbatim>\<open>finish\<close>, opened, before any message of the
  frame has arrived.
\<close>

definition waiting_session :: world where
  "waiting_session = openSession (on ''finish'' 7 modal_session)"

text \<open>The host-mounted session after one and after two \<^verbatim>\<open>ready\<close> messages.\<close>

definition after_first_ready :: world where
  "after_first_ready = fst (deliver idle (Data (Some ''ready'')) host_mounted)"

definition after_second_ready :: world where
  "after_second_ready = fst (deliver idle (Data (Some ''ready'')) after_first_ready)"

text \<open>The exceptions a listener reports, as a list.\<close>

definition reported :: "error option \<Rightarrow> error list" where
  "reported e = (case e of None \<Rightarrow> [] | Some x \<Rightarrow> [x])"


text \<open>
  Sessions whose frame has sent \<^verbatim>\<open>ready\<close>: the opened modal session, and the embed
  session, each with a callback for \<^verbatim>\<open>finish\<close>.
\<close>

definition ready_session :: world where
  "ready_session = fst (deliver idle (Data (Some ''ready'')) waiting_session)"

definition embed_ready :: world where
  "embed_ready = fst (deliver idle (Data (Some ''ready'')) (on ''finish'' 7 embed_session))"

text \<open>
  A callback that leaves a trace: it registers itself for the event \<^verbatim>\<open>called\<close>
  (\<^verbatim>\<open>() => client.on('called', cb)\<close>).
\<close>

definition noting :: runner where
  "noting cb w = (on ''called'' cb w, None)"

section \<open>Properties\<close>

lemmas dom_defs = createElement_def appendChild_def setAttribute_def removeAttribute_def
  setProperty_def removeProperty_def

subsection \<open>The sample sessions\<close>

lemma initStyle_nf:
  "initStyle w = w\<lparr>next_node := Suc (next_node w),
      tag_name := (tag_name w)(next_node w \<mapsto> ''style''),
      attrs := (attrs w)(next_node w := (attrs w (next_node w))(''type'' \<mapsto> ''text/css'')),
      inner_text := (inner_text w)(next_node w \<mapsto> styles w),
      parent := (parent w)(next_node w \<mapsto> head_node)\<rparr>"
  by (simp add: initStyle_def dom_defs)

lemma new_client_fields:
  "baseURL new_client = ''https://verify.synaps.io''"
  "sessionID new_client = ''abc''"
  "service new_client = ''individual''"
  "type new_client = ''modal''"
  "alreadyInit new_client = False"
  "next_node new_client = 4"
  "isOpen new_client = False"
  "parent new_client 2 = Some 0"
  "parent new_client 4 = None"
  "parent new_client 5 = None"
  "message_listeners new_client = []"
  "next_cell new_client = 0"
  "active_proxies new_client = []"
  "next_handle new_client = 0"
  "providerProxyUninstaller new_client = None"
  "loaderElement new_client = None"
  "callbacks new_client = Map.empty"
  "by_id new_client = Map.empty"
  "inline_style new_client = (\<lambda>n. Map.empty)"
  by (simp_all add: new_client_def construct_def truthy_str_def initStyle_nf page_def)

lemma modal_session_fields:
  "type modal_session = ''modal''"
  "alreadyInit modal_session"
  "iframe modal_session = Some 4"
  "next_node modal_session = 5"
  "\<not> isOpen modal_session"
  "parent modal_session 2 = Some 0"
  "parent modal_session 4 = None"
  "parent modal_session 5 = None"
  "message_listeners modal_session = [LoadListener 0]"
  "\<not> eventInited modal_session 0"
  "active_proxies modal_session = []"
  "next_handle modal_session = 0"
  "providerProxyUninstaller modal_session = None"
  "loaderElement modal_session = None"
  "callbacks modal_session = Map.empty"
  "inline_style modal_session = (\<lambda>n. Map.empty)"
  by (simp_all add: modal_session_def init_def initLoad_def initModal_def Let_def split_def
      or_default_def truthy_str_def dom_defs new_client_fields)

lemma example_session_fields:
  "baseURL example_session = ''https://verify.synaps.io''"
  "sessionID example_session = ''abc''"
  "service example_session = ''individual''"
  "type example_session = ''modal''"
  "lang example_session = ''fr''"
  "colors example_session = Some \<lparr>primary = Some ''#fff'', secondary = None\<rparr>"
  "tier example_session = Some 3"
  by (simp_all add: example_session_def example_options_def init_def initLoad_def initModal_def
      Let_def split_def or_default_def truthy_str_def dom_defs new_client_fields)

subsection \<open>Construction\<close>

lemma baseURL_initStyle: "baseURL (initStyle w) = baseURL w"
  and sessionID_initStyle: "sessionID (initStyle w) = sessionID w"
  and service_initStyle: "service (initStyle w) = service w"
  by (simp_all add: initStyle_nf)

text \<open>
  Claim C9. Construction fails, with the error of the constructor, exactly when the
  session id or the service is absent, where absent is what the constructor tests:
  not passed, or the empty string. When both are there and no base URL is passed (or
  an empty one), the base URL is chosen by the service: one endpoint for
  \<^verbatim>\<open>corporate\<close>, another one for \<^verbatim>\<open>individual\<close>; a base URL that is passed is kept.
\<close>

theorem construct_requires_session_and_service:
  "(\<not> truthy_str sid \<or> \<not> truthy_str svc \<longrightarrow>
      construct sid svc url p = Inl (Error required_message)) \<and>
   (truthy_str sid \<and> truthy_str svc \<longrightarrow>
      (\<exists>w. construct sid svc url p = Inr w \<and> sessionID w = the sid \<and> service w = the svc \<and>
           (\<not> truthy_str url \<and> svc = Some ''corporate'' \<longrightarrow>
              baseURL w = ''https://verify-v3.synaps.io'') \<and>
           (\<not> truthy_str url \<and> svc = Some ''individual'' \<longrightarrow>
              baseURL w = ''https://verify.synaps.io'') \<and>
           (truthy_str url \<longrightarrow> baseURL w = the url))) \<and>
   ''https://verify-v3.synaps.io'' \<noteq> ''https://verify.synaps.io''"
  by (simp add: construct_def baseURL_initStyle sessionID_initStyle service_initStyle)

theorem construct_requires_session_and_service_witness:
  "construct None (Some ''individual'') None (page []) = Inl (Error required_message) \<and>
   construct (Some ''abc'') None None (page []) = Inl (Error required_message) \<and>
   (\<exists>w. construct (Some ''abc'') (Some ''corporate'') None (page []) = Inr w \<and>
        baseURL w = ''https://verify-v3.synaps.io'') \<and>
   (\<exists>w. construct (Some ''abc'') (Some ''individual'') None (page []) = Inr w \<and>
        baseURL w = ''https://verify.synaps.io'')"
  using construct_requires_session_and_service [of None "Some ''individual''" None "page []"]
    construct_requires_session_and_service [of "Some ''abc''" None None "page []"]
    construct_requires_session_and_service [of "Some ''abc''" "Some ''corporate''" None "page []"]
    construct_requires_session_and_service [of "Some ''abc''" "Some ''individual''" None "page []"]
  by (auto simp add: truthy_str_def)

subsection \<open>The URL\<close>

lemma example_url:
  "formatURL example_session =
     ''https://verify.synaps.io?session_id=abc&service=individual&type=modal&lang=fr&primary_color=#fff&tier=3''"
  by (simp add: formatURL_def example_session_fields truthy_str_def truthy_num_def
      number_to_string_def digit_def)

text \<open>
  Claim C4, as stated: for the configuration of the example, the URL ends with
  \<^verbatim>\<open>&type=modal&lang=fr&primary_color=%23fff&tier=3\<close>. It does not: the values are
  written into the URL as they are, and \<^verbatim>\<open>#\<close> is not percent-encoded.
\<close>

theorem formatURL_example_not_encoded:
  "\<not> suffix ''&type=modal&lang=fr&primary_color=%23fff&tier=3'' (formatURL example_session)"
  by (simp add: example_url suffix_def)

text \<open>
  Claim C4, amended. The URL is a function of the configuration alone, and it is the
  URL of the specification: the base URL, then \<^verbatim>\<open>session_id\<close>, \<^verbatim>\<open>service\<close>,
  \<^verbatim>\<open>type\<close>, \<^verbatim>\<open>lang\<close> (\<^verbatim>\<open>en\<close> when the language is empty), then
  \<^verbatim>\<open>primary_color\<close>, \<^verbatim>\<open>secondary\<close> and \<^verbatim>\<open>tier\<close>, each only when its value is
  truthy, in this order and with the values as they are. For the example the URL ends
  with \<^verbatim>\<open>&type=modal&lang=fr&primary_color=#fff&tier=3\<close>, without
  \<^verbatim>\<open>secondary\<close>.
\<close>

theorem formatURL_fixed_order:
  "formatURL w = spec_buildURL w \<and>
   formatURL example_session =
     ''https://verify.synaps.io?session_id=abc&service=individual&type=modal&lang=fr&primary_color=#fff&tier=3'' \<and>
   suffix ''&type=modal&lang=fr&primary_color=#fff&tier=3'' (formatURL example_session)"
proof -
  have "formatURL w = spec_buildURL w"
    by (simp add: formatURL_def spec_buildURL_def spec_params_def Let_def truthy_str_def
        truthy_num_def split: option.splits)
  then show ?thesis
    by (simp add: example_url suffix_def)
qed

theorem formatURL_fixed_order_witness:
  "spec_buildURL example_session =
     ''https://verify.synaps.io?session_id=abc&service=individual&type=modal&lang=fr&primary_color=#fff&tier=3''"
proof -
  have "formatURL example_session = spec_buildURL example_session"
    using formatURL_fixed_order [of example_session] by (rule conjunct1)
  then have "spec_buildURL example_session = formatURL example_session"
    by (rule sym)
  also note example_url
  finally show ?thesis .
qed

subsection \<open>Initialisation\<close>

lemma initEmbed_config:
  "type (initEmbed w) = type w" "lang (initEmbed w) = lang w" "tier (initEmbed w) = tier w"
  "colors (initEmbed w) = colors w" "elementID (initEmbed w) = elementID w"
  by (simp_all add: initEmbed_def getFlow_def frame_attributes_def dom_defs Let_def split_def
      split: option.splits)

lemma initLoad_config:
  "type (initLoad w) = type w" "lang (initLoad w) = lang w" "tier (initLoad w) = tier w"
  "colors (initLoad w) = colors w" "elementID (initLoad w) = elementID w"
  by (simp_all add: initLoad_def initModal_def initEmbed_config Let_def)

lemma init_when_initialized: "alreadyInit w \<Longrightarrow> init opts w = (w, None)"
  by (simp add: init_def)

lemma init_success_initialized: "init opts w = (w', None) \<Longrightarrow> alreadyInit w'"
  by (auto simp add: init_def Let_def split_def split: if_splits)

lemma init_invalid:
  "\<not> alreadyInit w \<Longrightarrow> \<not> valid_options opts \<Longrightarrow> init opts w = (w, Some (Error type_message))"
  by (auto simp add: init_def valid_options_def split: option.splits if_splits)

lemma init_valid:
  assumes "\<not> alreadyInit w" "valid_options opts"
  shows "snd (init opts w) = None"
    and "alreadyInit (fst (init opts w))"
    and "type (fst (init opts w)) =
           or_default (case opts of None \<Rightarrow> None | Some opt \<Rightarrow> o_type opt) ''modal''"
    and "lang (fst (init opts w)) =
           or_default (case opts of None \<Rightarrow> None | Some opt \<Rightarrow> o_lang opt) ''en''"
    and "tier (fst (init opts w)) = (case opts of None \<Rightarrow> None | Some opt \<Rightarrow> o_tier opt)"
    and "colors (fst (init opts w)) =
           Some (case (case opts of None \<Rightarrow> None | Some opt \<Rightarrow> o_colors opt) of
                   None \<Rightarrow> \<lparr>primary = None, secondary = None\<rparr>
                 | Some c \<Rightarrow> c)"
  using assms
  by (auto simp add: init_def valid_options_def Let_def split_def initLoad_config dom_defs
      split: option.splits if_splits)

lemma valid_example_options: "valid_options (Some example_options)"
  by (simp add: valid_options_def example_options_def truthy_str_def)

lemma invalid_popup_options:
  "truthy_str (o_type popup_options)" "the (o_type popup_options) \<notin> {''modal'', ''embed''}"
  "\<not> valid_options (Some popup_options)"
  by (simp_all add: valid_options_def popup_options_def truthy_str_def)

lemma init_example: "init (Some example_options) new_client = (example_session, None)"
  using init_valid(1) [of new_client "Some example_options"]
  by (simp add: example_session_def new_client_fields valid_example_options prod_eq_iff)

text \<open>
  Claim C6. After an \<^verbatim>\<open>init\<close> call that returned normally, every later
  \<^verbatim>\<open>init\<close> call, whatever its options, returns normally and leaves the client and
  the page exactly as they were: the configuration of the first call stays in effect.
\<close>

theorem init_idempotent:
  "init opts w = (w', None) \<Longrightarrow> init opts' w' = (w', None)"
  by (rule init_when_initialized) (rule init_success_initialized)

theorem init_idempotent_witness:
  "init (Some example_options) new_client = (example_session, None) \<and>
   init (Some popup_options) example_session = (example_session, None) \<and>
   init None example_session = (example_session, None) \<and>
   type example_session = ''modal'' \<and> lang example_session = ''fr'' \<and>
   tier example_session = Some 3"
  using init_idempotent [OF init_example, of "Some popup_options"]
    init_idempotent [OF init_example, of None]
  by (simp add: init_example example_session_fields)

text \<open>
  Claim C7. On a client that is not initialised yet, \<^verbatim>\<open>init\<close> with a type that is
  present (not empty) and neither \<^verbatim>\<open>modal\<close> nor \<^verbatim>\<open>embed\<close> throws the error of the
  type check and changes nothing: the client and the page are as before, so no
  configuration field is modified and the flag is still unset. A later \<^verbatim>\<open>init\<close> with
  corrected options then runs as a first call: it returns normally, sets the flag and
  takes its configuration from the corrected options.
\<close>

theorem init_rejects_invalid_type:
  assumes "\<not> alreadyInit w" "truthy_str (o_type opt)" "the (o_type opt) \<notin> {''modal'', ''embed''}"
  shows "init (Some opt) w = (w, Some (Error type_message)) \<and>
         \<not> alreadyInit (fst (init (Some opt) w)) \<and>
         (valid_options opts' \<longrightarrow>
            snd (init opts' (fst (init (Some opt) w))) = None \<and>
            alreadyInit (fst (init opts' (fst (init (Some opt) w)))) \<and>
            type (fst (init opts' (fst (init (Some opt) w)))) =
              or_default (case opts' of None \<Rightarrow> None | Some c \<Rightarrow> o_type c) ''modal'' \<and>
            lang (fst (init opts' (fst (init (Some opt) w)))) =
              or_default (case opts' of None \<Rightarrow> None | Some c \<Rightarrow> o_lang c) ''en'' \<and>
            tier (fst (init opts' (fst (init (Some opt) w)))) =
              (case opts' of None \<Rightarrow> None | Some c \<Rightarrow> o_tier c))"
proof -
  have "\<not> valid_options (Some opt)"
    using assms(2,3) by (simp add: valid_options_def)
  then have rejected: "init (Some opt) w = (w, Some (Error type_message))"
    using assms(1) by (rule init_invalid [rotated])
  show ?thesis
    using assms(1) by (simp add: rejected init_valid)
qed

theorem init_rejects_invalid_type_witness:
  "\<not> alreadyInit new_client \<and>
   init (Some popup_options) new_client = (new_client, Some (Error type_message)) \<and>
   snd (init (Some example_options) (fst (init (Some popup_options) new_client))) = None \<and>
   alreadyInit (fst (init (Some example_options) (fst (init (Some popup_options) new_client)))) \<and>
   lang (fst (init (Some example_options) (fst (init (Some popup_options) new_client)))) = ''fr''"
proof -
  have fresh: "\<not> alreadyInit new_client"
    by (simp add: new_client_fields)
  have fr: "or_default (o_lang example_options) ''en'' = ''fr''"
    by (simp add: or_default_def truthy_str_def example_options_def)
  show ?thesis
    using init_rejects_invalid_type [OF fresh invalid_popup_options(1,2), of "Some example_options"]
      valid_example_options fresh
    by (auto simp add: fr)
qed

subsection \<open>Closing\<close>

lemma closeFlow_layout: "layout_restored (fst (closeFlow w))" "\<not> isOpen (fst (closeFlow w))"
  by (simp_all add: closeFlow_def layout_restored_def removeProperty_def removeChild_def uninstall_def
      Let_def split: option.splits sum.splits)

text \<open>\<^verbatim>\<open>closeFlow\<close> throws exactly when there is a frame and it is not a child of body.\<close>

lemma closeFlow_error:
  "snd (closeFlow w) =
     (case iframe w of
        None \<Rightarrow> None
      | Some f \<Rightarrow> if parent w f = Some body_node then None else Some NotFoundError)"
  by (simp add: closeFlow_def removeProperty_def removeChild_def uninstall_def Let_def
      split: option.splits sum.splits)

lemma closeFlow_keeps:
  "iframe (fst (closeFlow w)) = iframe w" "callbacks (fst (closeFlow w)) = callbacks w"
  "type (fst (closeFlow w)) = type w"
  by (simp_all add: closeFlow_def removeProperty_def removeChild_def uninstall_def Let_def
      split: option.splits sum.splits)

lemma closeFlow_detaches:
  "iframe w = Some f \<Longrightarrow> parent (fst (closeFlow w)) f \<noteq> Some body_node"
  by (simp add: closeFlow_def removeProperty_def removeChild_def uninstall_def Let_def
      split: option.splits sum.splits)

lemma closeFlow_done:
  assumes "snd (closeFlow w) = None"
  shows "providerProxyUninstaller (fst (closeFlow w)) = None"
    and "iframe w = Some f \<Longrightarrow> parent (fst (closeFlow w)) f = None"
    and "providerProxyUninstaller w = Some h \<Longrightarrow> h \<notin> set (active_proxies (fst (closeFlow w)))"
    and "active_proxies (fst (closeFlow w)) =
           (case providerProxyUninstaller w of
              None \<Rightarrow> active_proxies w
            | Some h \<Rightarrow> removeAll h (active_proxies w))"
  using assms
  by (auto simp add: closeFlow_def removeProperty_def removeChild_def uninstall_def Let_def
      split: option.splits sum.splits if_splits)


text \<open>Once there is a frame, a second \<^verbatim>\<open>closeFlow\<close> in a row always throws.\<close>

lemma closeFlow_twice:
  "iframe w = Some f \<Longrightarrow> snd (closeFlow (fst (closeFlow w))) = Some NotFoundError"
  by (simp add: closeFlow_error [of "fst (closeFlow w)"] closeFlow_keeps closeFlow_detaches)

subsection \<open>Opening\<close>

lemma openSession_open: "isOpen (openSession w)"
  by (simp add: openSession_def Let_def split_def dom_defs frame_attributes_def split: option.splits)

lemma openSession_noop: "isOpen w \<Longrightarrow> openSession w = w"
  by (simp add: openSession_def)

lemma openSession_keeps:
  "type (openSession w) = type w" "callbacks (openSession w) = callbacks w"
  "iframe (openSession w) = iframe w" "message_listeners (openSession w) = message_listeners w"
  "eventInited (openSession w) = eventInited w" "active_proxies (openSession w) = active_proxies w"
  "next_handle (openSession w) = next_handle w"
  "providerProxyUninstaller (openSession w) = providerProxyUninstaller w"
  by (simp_all add: openSession_def Let_def split_def dom_defs frame_attributes_def
      split: option.splits)

lemma openSession_attaches:
  "\<not> isOpen w \<Longrightarrow> iframe w = Some f \<Longrightarrow> parent (openSession w) f = Some body_node"
  by (simp add: openSession_def Let_def split_def dom_defs frame_attributes_def)

lemma openSession_style:
  "\<not> isOpen w \<Longrightarrow> inline_style (openSession w) html_node ''overflow'' = Some ''hidden''"
  by (simp add: openSession_def Let_def split_def dom_defs frame_attributes_def split: option.splits)



lemma on_fields:
  "type (on t cb w) = type w" "iframe (on t cb w) = iframe w" "isOpen (on t cb w) = isOpen w"
  "parent (on t cb w) = parent w" "message_listeners (on t cb w) = message_listeners w"
  "callbacks (on t cb w) t = Some cb"
  by (simp_all add: on_def)

lemma waiting_session_fields:
  "type waiting_session = ''modal''"
  "callbacks waiting_session ''finish'' = Some 7"
  "isOpen waiting_session"
  "iframe waiting_session = Some 4"
  "parent waiting_session 4 = Some 2"
  "message_listeners waiting_session = [LoadListener 0]"
  "inline_style waiting_session 0 ''overflow'' = Some ''hidden''"
  "providerProxyUninstaller waiting_session = None"
  by (simp_all add: waiting_session_def openSession_keeps openSession_open openSession_attaches
      openSession_style on_fields modal_session_fields, simp add: on_def modal_session_fields)

lemma waiting_session_loader:
  "loaderElement waiting_session = Some 2"
  "loader waiting_session = Some 5"
  "parent waiting_session 5 = Some 2"
  "\<not> eventInited waiting_session 0"
  by (simp_all add: waiting_session_def openSession_def on_def Let_def split_def dom_defs
      frame_attributes_def modal_session_fields)

text \<open>
  Claim C8. \<^verbatim>\<open>openSession\<close> on an open session changes nothing, and
  \<^verbatim>\<open>openSession\<close> leaves the session open; so two calls in a row do what one call
  does. From a closed session the two calls together create one node, the loader, put
  it under body, put the frame (if there is one) under body, and set one style
  property, the overflow of html; the rest of the tree and of the styles is as before.
\<close>

theorem openSession_idempotent:
  "openSession (openSession w) = openSession w \<and>
   (isOpen w \<longrightarrow> openSession w = w) \<and>
   (\<not> isOpen w \<longrightarrow>
      next_node (openSession (openSession w)) = Suc (next_node w) \<and>
      loader (openSession (openSession w)) = Some (next_node w) \<and>
      parent (openSession (openSession w)) =
        (case iframe w of
           None \<Rightarrow> (parent w)(next_node w \<mapsto> body_node)
         | Some f \<Rightarrow> (parent w)(next_node w \<mapsto> body_node, f \<mapsto> body_node)) \<and>
      inline_style (openSession (openSession w)) =
        (inline_style w)(html_node := (inline_style w html_node)(''overflow'' \<mapsto> ''hidden'')))"
proof -
  have idem: "openSession (openSession w) = openSession w"
    by (rule openSession_noop) (rule openSession_open)
  have once: "\<not> isOpen w \<Longrightarrow>
      next_node (openSession w) = Suc (next_node w) \<and>
      loader (openSession w) = Some (next_node w) \<and>
      parent (openSession w) =
        (case iframe w of
           None \<Rightarrow> (parent w)(next_node w \<mapsto> body_node)
         | Some f \<Rightarrow> (parent w)(next_node w \<mapsto> body_node, f \<mapsto> body_node)) \<and>
      inline_style (openSession w) =
        (inline_style w)(html_node := (inline_style w html_node)(''overflow'' \<mapsto> ''hidden''))"
    by (simp add: openSession_def Let_def split_def dom_defs frame_attributes_def
        split: option.splits)
  show ?thesis
    using once by (simp add: idem openSession_noop)
qed

theorem openSession_idempotent_witness:
  "\<not> isOpen modal_session \<and>
   openSession (openSession modal_session) = openSession modal_session \<and>
   next_node (openSession (openSession modal_session)) = 6 \<and>
   loader (openSession (openSession modal_session)) = Some 5 \<and>
   parent (openSession (openSession modal_session)) 5 = Some body_node \<and>
   parent (openSession (openSession modal_session)) 4 = Some body_node \<and>
   inline_style (openSession (openSession modal_session)) html_node ''overflow'' = Some ''hidden''"
  using openSession_idempotent [of modal_session]
  by (auto simp add: modal_session_fields)

text \<open>
  Claim C3 fails on the code. After \<^verbatim>\<open>init\<close>, \<^verbatim>\<open>openSession\<close> and a first
  \<^verbatim>\<open>closeFlow\<close>, which returns normally, a second \<^verbatim>\<open>closeFlow\<close> throws the
  \<^verbatim>\<open>NotFoundError\<close> of \<^verbatim>\<open>document.body.removeChild(this.iframe)\<close>: the frame is no
  longer a child of body.
\<close>

theorem closeFlow_again_throws:
  "snd (closeFlow (openSession modal_session)) = None \<and>
   snd (closeFlow (fst (closeFlow (openSession modal_session)))) = Some NotFoundError"
proof -
  have f: "iframe (openSession modal_session) = Some 4"
    by (simp add: openSession_keeps modal_session_fields)
  have "parent (openSession modal_session) 4 = Some body_node"
    by (rule openSession_attaches) (simp_all add: modal_session_fields)
  then have "snd (closeFlow (openSession modal_session)) = None"
    by (simp add: closeFlow_error f)
  then show ?thesis
    using closeFlow_twice [OF f] by simp
qed

subsection \<open>The dispatcher of finish and close\<close>

lemma handler_modal:
  assumes "type w = ''modal''" "t \<in> {''finish'', ''close''}"
  shows "initEvents_handler run (Data (Some t)) w =
     (case snd (closeFlow w) of
        Some e \<Rightarrow> (fst (closeFlow w), Some e)
      | None \<Rightarrow>
          (case callbacks w t of
             None \<Rightarrow> (fst (closeFlow w), None)
           | Some cb \<Rightarrow> run cb (fst (closeFlow w))))"
proof -
  obtain a e where c: "closeFlow w = (a, e)"
    by (cases "closeFlow w")
  have "callbacks a = callbacks w"
    using closeFlow_keeps(2) [of w] by (simp add: c)
  then show ?thesis
    using assms by (auto simp add: initEvents_handler_def c split: option.splits)
qed

lemma handler_embed:
  "type w = ''embed'' \<Longrightarrow> t \<in> {''finish'', ''close''} \<Longrightarrow>
   initEvents_handler run (Data (Some t)) w =
     (case callbacks w t of None \<Rightarrow> (w, None) | Some cb \<Rightarrow> run cb w)"
  by (auto simp add: initEvents_handler_def)

lemma handler_other:
  "t \<notin> {Some ''finish'', Some ''close''} \<Longrightarrow> initEvents_handler run (Data t) w = (w, None)"
  by (simp add: initEvents_handler_def)

lemma load_handler_other:
  "t \<noteq> Some ''ready'' \<Longrightarrow> initLoad_handler k (Data t) w = (w, None)"
  by (simp add: initLoad_handler_def)

lemma load_handler_keeps:
  "type (fst (initLoad_handler k m w)) = type w"
  "callbacks (fst (initLoad_handler k m w)) = callbacks w"
  "iframe (fst (initLoad_handler k m w)) = iframe w"
  "isOpen (fst (initLoad_handler k m w)) = isOpen w"
  "inline_style (fst (initLoad_handler k m w)) = inline_style w"
  by (simp_all add: initLoad_handler_def installProviderProxyFor_def initEvents_def removeChild_def
      dom_defs Let_def split_def split: message.splits option.splits sum.splits)

lemma load_handler_parent:
  "loader w \<noteq> Some f \<Longrightarrow> parent (fst (initLoad_handler k m w)) f = parent w f"
  by (auto simp add: initLoad_handler_def installProviderProxyFor_def initEvents_def removeChild_def
      dom_defs Let_def split_def split: message.splits option.splits sum.splits)

lemma ready_registers:
  "snd (initLoad_handler k (Data (Some ''ready'')) w) = None \<Longrightarrow> \<not> eventInited w k \<Longrightarrow>
   message_listeners (fst (initLoad_handler k (Data (Some ''ready'')) w)) =
     message_listeners w @ [EventsListener]"
  by (auto simp add: initLoad_handler_def installProviderProxyFor_def initEvents_def removeChild_def
      dom_defs Let_def split_def split: option.splits if_splits)

lemma ready_returns:
  "loaderElement w = None \<or>
   (\<exists>le l. loaderElement w = Some le \<and> loader w = Some l \<and> parent w l = Some le) \<Longrightarrow>
   snd (initLoad_handler k (Data (Some ''ready'')) w) = None"
  by (auto simp add: initLoad_handler_def installProviderProxyFor_def initEvents_def removeChild_def
      dom_defs Let_def split_def split: option.splits if_splits)

text \<open>Delivery to the listeners of a session before and after the first \<^verbatim>\<open>ready\<close>.\<close>

lemma deliver_one:
  "message_listeners w = [LoadListener k] \<Longrightarrow>
   deliver run m w = (fst (initLoad_handler k m w), reported (snd (initLoad_handler k m w)))"
  by (simp add: deliver_def call_listener_def reported_def split_def)

lemma deliver_registered:
  "message_listeners w = [LoadListener k, EventsListener] \<Longrightarrow> t \<noteq> Some ''ready'' \<Longrightarrow>
   deliver run (Data t) w =
     (fst (initEvents_handler run (Data t) w), reported (snd (initEvents_handler run (Data t) w)))"
  by (simp add: deliver_def call_listener_def reported_def split_def load_handler_other)

lemma deliver_registered_ready:
  "message_listeners w = [LoadListener k, EventsListener] \<Longrightarrow>
   deliver run (Data (Some ''ready'')) w =
     (fst (initLoad_handler k (Data (Some ''ready'')) w),
      reported (snd (initLoad_handler k (Data (Some ''ready'')) w)))"
  by (simp add: deliver_def call_listener_def reported_def split_def handler_other)

lemma ready_session_eq:
  "ready_session = fst (initLoad_handler 0 (Data (Some ''ready'')) waiting_session)"
  by (simp add: ready_session_def deliver_one waiting_session_fields)

lemma ready_session_fields:
  "type ready_session = ''modal''"
  "callbacks ready_session ''finish'' = Some 7"
  "isOpen ready_session"
  "iframe ready_session = Some 4"
  "parent ready_session 4 = Some 2"
  "inline_style ready_session 0 ''overflow'' = Some ''hidden''"
  "message_listeners ready_session = [LoadListener 0, EventsListener]"
proof -
  have "snd (initLoad_handler 0 (Data (Some ''ready'')) waiting_session) = None"
    by (rule ready_returns) (simp add: waiting_session_loader)
  then show "message_listeners ready_session = [LoadListener 0, EventsListener]"
    by (simp add: ready_session_eq ready_registers waiting_session_loader waiting_session_fields)
qed (simp_all add: ready_session_eq load_handler_keeps load_handler_parent waiting_session_fields
    waiting_session_loader)


lemma embed_session_fields:
  "message_listeners embed_session = [LoadListener 0]"
  "loaderElement embed_session = None"
  "\<not> eventInited embed_session 0"
  by (simp_all add: embed_session_def example_options_def init_def initLoad_def initEmbed_def
      Let_def split_def or_default_def truthy_str_def dom_defs new_client_fields)

lemma embed_ready_eq:
  "embed_ready = fst (initLoad_handler 0 (Data (Some ''ready'')) (on ''finish'' 7 embed_session))"
  by (simp add: embed_ready_def deliver_one on_fields embed_session_fields)

lemma waiting_session_closes: "snd (closeFlow waiting_session) = None"
  by (simp add: closeFlow_error waiting_session_fields)

lemma embed_session_type: "type embed_session = ''embed''"
proof -
  have "valid_options (Some (example_options\<lparr>o_type := Some ''embed''\<rparr>))"
    by (simp add: valid_options_def truthy_str_def)
  then have "type embed_session = or_default (Some ''embed'') ''modal''"
    unfolding embed_session_def
    by (subst init_valid(3)) (simp_all add: new_client_fields)
  then show ?thesis
    by (simp add: or_default_def truthy_str_def)
qed

lemma embed_ready_fields:
  "type embed_ready = ''embed''"
  "callbacks embed_ready ''finish'' = Some 7"
  "message_listeners embed_ready = [LoadListener 0, EventsListener]"
proof -
  have returns: "snd (initLoad_handler 0 (Data (Some ''ready'')) (on ''finish'' 7 embed_session)) = None"
    by (rule ready_returns) (simp add: on_def embed_session_fields)
  have flag: "\<not> eventInited (on ''finish'' 7 embed_session) 0"
    by (simp add: on_def embed_session_fields)
  have "message_listeners (on ''finish'' 7 embed_session) = [LoadListener 0]"
    by (simp add: on_fields embed_session_fields)
  then show "message_listeners embed_ready = [LoadListener 0, EventsListener]"
    using ready_registers [OF returns flag] by (simp add: embed_ready_eq)
qed (simp_all add: embed_ready_eq load_handler_keeps on_fields embed_session_type)





text \<open>
  Claim C10. In modal mode, when the dispatcher handles \<^verbatim>\<open>finish\<close> or \<^verbatim>\<open>close\<close> and
  a callback is registered for it, either \<^verbatim>\<open>closeFlow\<close> throws and the callback is not
  called at all, or the callback is called in the world \<^verbatim>\<open>closeFlow\<close> left after
  returning: layout restored, \<^verbatim>\<open>isOpen\<close> false, the frame detached, the uninstaller
  called and cleared. A callback that runs sees the session closed.
\<close>

theorem dispatcher_closes_before_callback:
  assumes "type w = ''modal''" "t \<in> {''finish'', ''close''}" "callbacks w t = Some cb"
  shows "(snd (closeFlow w) = Some NotFoundError \<and>
          initEvents_handler run (Data (Some t)) w = (fst (closeFlow w), Some NotFoundError)) \<or>
         (snd (closeFlow w) = None \<and>
          initEvents_handler run (Data (Some t)) w = run cb (fst (closeFlow w)) \<and>
          layout_restored (fst (closeFlow w)) \<and>
          \<not> isOpen (fst (closeFlow w)) \<and>
          (\<forall>f. iframe w = Some f \<longrightarrow> parent (fst (closeFlow w)) f = None) \<and>
          providerProxyUninstaller (fst (closeFlow w)) = None \<and>
          (\<forall>h. providerProxyUninstaller w = Some h \<longrightarrow>
               h \<notin> set (active_proxies (fst (closeFlow w)))))"
proof (cases "snd (closeFlow w)")
  case None
  then show ?thesis
    using assms closeFlow_done(1,2,3) [OF None]
    by (simp add: handler_modal closeFlow_layout)
next
  case (Some e)
  then have "e = NotFoundError"
    by (auto simp add: closeFlow_error split: option.splits if_splits)
  with Some show ?thesis
    using assms by (simp add: handler_modal)
qed

theorem dispatcher_closes_before_callback_witness:
  "type waiting_session = ''modal'' \<and> callbacks waiting_session ''finish'' = Some 7 \<and>
   isOpen waiting_session \<and> parent waiting_session 4 = Some body_node \<and>
   initEvents_handler idle (Data (Some ''finish'')) waiting_session =
     idle 7 (fst (closeFlow waiting_session)) \<and>
   layout_restored (fst (closeFlow waiting_session)) \<and>
   \<not> isOpen (fst (closeFlow waiting_session)) \<and>
   parent (fst (closeFlow waiting_session)) 4 = None \<and>
   providerProxyUninstaller (fst (closeFlow waiting_session)) = None"
  using dispatcher_closes_before_callback [of waiting_session "''finish''" 7 idle]
  by (simp add: waiting_session_fields waiting_session_closes)

text \<open>
  Claim C5, as stated, speaks of every session with a callback for \<^verbatim>\<open>finish\<close>. The
  dispatcher is registered at the first \<^verbatim>\<open>ready\<close> only: on the opened modal session
  that has not received \<^verbatim>\<open>ready\<close>, a \<^verbatim>\<open>finish\<close> message changes nothing, whatever
  the callback would do. The callback is not called and the session stays open.
\<close>

theorem finish_before_ready_ignored:
  "type waiting_session = ''modal'' \<and> callbacks waiting_session ''finish'' = Some 7 \<and>
   isOpen waiting_session \<and>
   (\<forall>run. deliver run (Data (Some ''finish'')) waiting_session = (waiting_session, []))"
  by (simp add: waiting_session_fields deliver_def call_listener_def load_handler_other)

text \<open>
  Claim C5, amended. On a session whose dispatcher is registered (the listeners of a
  session after \<^verbatim>\<open>init\<close> and its first \<^verbatim>\<open>ready\<close>) and that has a callback for
  \<^verbatim>\<open>finish\<close>, the delivery of a \<^verbatim>\<open>finish\<close> message does this: in modal mode, with
  the frame under body, the session is closed and the callback is then called, in the
  closed world; in embed mode the callback is called in the world as it is, and nothing
  is closed. A message whose type is none of \<^verbatim>\<open>finish\<close>, \<^verbatim>\<open>close\<close> and \<^verbatim>\<open>ready\<close>
  changes nothing and calls nothing, and on \<^verbatim>\<open>ready\<close> only the listener of
  \<^verbatim>\<open>_initLoad\<close> acts: no callback, no close.
\<close>

theorem dispatcher_finish_amended:
  assumes "message_listeners w = [LoadListener k, EventsListener]"
    and "callbacks w ''finish'' = Some cb"
  shows "(type w = ''modal'' \<and> iframe w = Some f \<and> parent w f = Some body_node \<longrightarrow>
            snd (closeFlow w) = None \<and>
            deliver run (Data (Some ''finish'')) w =
              (fst (run cb (fst (closeFlow w))), reported (snd (run cb (fst (closeFlow w))))) \<and>
            \<not> isOpen (fst (closeFlow w)) \<and> layout_restored (fst (closeFlow w)) \<and>
            parent (fst (closeFlow w)) f = None) \<and>
         (type w = ''embed'' \<longrightarrow>
            deliver run (Data (Some ''finish'')) w = (fst (run cb w), reported (snd (run cb w)))) \<and>
         (t \<notin> {Some ''finish'', Some ''close'', Some ''ready''} \<longrightarrow>
            deliver run (Data t) w = (w, [])) \<and>
         deliver run (Data (Some ''ready'')) w =
           (fst (initLoad_handler k (Data (Some ''ready'')) w),
            reported (snd (initLoad_handler k (Data (Some ''ready'')) w)))"
proof (intro impI conjI)
  assume m: "type w = ''modal'' \<and> iframe w = Some f \<and> parent w f = Some body_node"
  then show ok: "snd (closeFlow w) = None"
    by (simp add: closeFlow_error)
  have "initEvents_handler run (Data (Some ''finish'')) w = run cb (fst (closeFlow w))"
    using assms(2) m ok by (simp add: handler_modal)
  then show "deliver run (Data (Some ''finish'')) w =
      (fst (run cb (fst (closeFlow w))), reported (snd (run cb (fst (closeFlow w)))))"
    by (simp add: deliver_registered [OF assms(1)])
  show "\<not> isOpen (fst (closeFlow w))" "layout_restored (fst (closeFlow w))"
    by (simp_all add: closeFlow_layout)
  show "parent (fst (closeFlow w)) f = None"
    using closeFlow_done(2) [OF ok] m by simp
next
  assume "type w = ''embed''"
  then have "initEvents_handler run (Data (Some ''finish'')) w = run cb w"
    using assms(2) by (simp add: handler_embed)
  then show "deliver run (Data (Some ''finish'')) w = (fst (run cb w), reported (snd (run cb w)))"
    by (simp add: deliver_registered [OF assms(1)])
next
  assume "t \<notin> {Some ''finish'', Some ''close'', Some ''ready''}"
  then show "deliver run (Data t) w = (w, [])"
    by (simp add: deliver_registered [OF assms(1)] handler_other reported_def)
next
  show "deliver run (Data (Some ''ready'')) w =
      (fst (initLoad_handler k (Data (Some ''ready'')) w),
       reported (snd (initLoad_handler k (Data (Some ''ready'')) w)))"
    by (rule deliver_registered_ready [OF assms(1)])
qed

theorem dispatcher_finish_amended_witness:
  "message_listeners ready_session = [LoadListener 0, EventsListener] \<and>
   type ready_session = ''modal'' \<and> callbacks ready_session ''finish'' = Some 7 \<and>
   isOpen ready_session \<and> parent ready_session 4 = Some body_node \<and>
   deliver noting (Data (Some ''finish'')) ready_session =
     (on ''called'' 7 (fst (closeFlow ready_session)), []) \<and>
   \<not> isOpen (fst (closeFlow ready_session)) \<and>
   parent (fst (closeFlow ready_session)) 4 = None \<and>
   message_listeners embed_ready = [LoadListener 0, EventsListener] \<and>
   type embed_ready = ''embed'' \<and> callbacks embed_ready ''finish'' = Some 7 \<and>
   deliver noting (Data (Some ''finish'')) embed_ready = (on ''called'' 7 embed_ready, []) \<and>
   deliver noting (Data (Some ''progress'')) ready_session = (ready_session, [])"
  using dispatcher_finish_amended [OF ready_session_fields(7,2), of 4 noting "Some ''progress''"]
    dispatcher_finish_amended [OF embed_ready_fields(3,2), of 4 noting "Some ''progress''"]
  by (simp add: ready_session_fields embed_ready_fields noting_def reported_def)

subsection \<open>The ready signal\<close>

lemma connected_root: "connected k p html_node"
  by (cases k) simp_all

lemma contentWindow_under_body:
  assumes "parent w f = Some body_node" "parent w body_node = Some html_node" "2 \<le> next_node w"
  shows "contentWindow w f"
proof -
  obtain k where "next_node w = Suc (Suc k)"
    using assms(3) by (metis One_nat_def Suc_1 Suc_le_D Suc_le_mono)
  then show ?thesis
    using assms(1,2) by (simp add: contentWindow_def connected_root)
qed

text \<open>
  A \<^verbatim>\<open>ready\<close> message in modal mode, with no loader element recorded and the frame in
  the document: a proxy is installed and its uninstaller stored over whatever was
  stored before; the dispatcher is registered unless the flag of the listener is set.
\<close>

lemma ready_installs:
  assumes "loaderElement w = None" "iframe w = Some f" "contentWindow w f" "type w = ''modal''"
  shows "initLoad_handler k (Data (Some ''ready'')) w =
     (w\<lparr>next_handle := Suc (next_handle w),
        active_proxies := active_proxies w @ [next_handle w],
        providerProxyUninstaller := Some (next_handle w),
        message_listeners :=
          (if eventInited w k then message_listeners w else message_listeners w @ [EventsListener]),
        eventInited := (eventInited w)(k := True)\<rparr>, None)"
  using assms
  by (simp add: initLoad_handler_def installProviderProxyFor_def initEvents_def contentWindow_def
      Let_def fun_upd_idem)

text \<open>
  The dispatcher is registered by the listener at most once: with the flag set the
  listeners stay as they are, and a \<^verbatim>\<open>ready\<close> that is handled to the end sets the flag.
\<close>

lemma dispatcher_not_registered_again:
  "eventInited w k \<Longrightarrow> message_listeners (fst (initLoad_handler k m w)) = message_listeners w"
  by (simp add: initLoad_handler_def installProviderProxyFor_def removeChild_def dom_defs Let_def
      split_def split: message.splits option.splits sum.splits)

lemma ready_sets_flag:
  "snd (initLoad_handler k (Data (Some ''ready'')) w) = None \<Longrightarrow>
   eventInited (fst (initLoad_handler k (Data (Some ''ready'')) w)) k"
  by (auto simp add: initLoad_handler_def installProviderProxyFor_def initEvents_def removeChild_def
      dom_defs Let_def split_def split: option.splits if_splits)

text \<open>
  With a loader recorded, a \<^verbatim>\<open>ready\<close> right after a \<^verbatim>\<open>ready\<close> throws at
  \<^verbatim>\<open>removeChild\<close>, before anything is installed: the loader was removed by the first.
\<close>

lemma ready_loader_gone:
  "loaderElement w = Some le \<Longrightarrow> loader w = Some l \<Longrightarrow> parent w l \<noteq> Some le \<Longrightarrow>
   initLoad_handler k (Data (Some ''ready'')) w = (w, Some NotFoundError)"
  by (simp add: initLoad_handler_def removeChild_def)

lemma ready_removes_loader:
  assumes "loaderElement w = Some le" "loader w = Some l"
  shows "loaderElement (fst (initLoad_handler k (Data (Some ''ready'')) w)) = Some le"
    and "loader (fst (initLoad_handler k (Data (Some ''ready'')) w)) = Some l"
    and "snd (initLoad_handler k (Data (Some ''ready'')) w) = None \<Longrightarrow>
         parent (fst (initLoad_handler k (Data (Some ''ready'')) w)) l = None"
  using assms
  by (simp_all add: initLoad_handler_def installProviderProxyFor_def initEvents_def removeChild_def
      dom_defs Let_def split_def split: option.splits if_splits)

lemma second_ready_throws:
  assumes "loaderElement w = Some le" "loader w = Some l"
    and "snd (initLoad_handler k (Data (Some ''ready'')) w) = None"
  shows "initLoad_handler k (Data (Some ''ready'')) (fst (initLoad_handler k (Data (Some ''ready'')) w)) =
           (fst (initLoad_handler k (Data (Some ''ready'')) w), Some NotFoundError)"
  using ready_removes_loader [OF assms(1,2), of k] assms(3)
  by (intro ready_loader_gone [where le = le and l = l]) simp_all

lemma host_mounted_fields:
  "loaderElement host_mounted = None"
  "iframe host_mounted = Some 4"
  "parent host_mounted 4 = Some 2"
  "parent host_mounted 2 = Some 0"
  "next_node host_mounted = 5"
  "type host_mounted = ''modal''"
  "message_listeners host_mounted = [LoadListener 0]"
  "\<not> eventInited host_mounted 0"
  "active_proxies host_mounted = []"
  "next_handle host_mounted = 0"
  "providerProxyUninstaller host_mounted = None"
  by (simp_all add: host_mounted_def getFlow_def frame_attributes_def dom_defs modal_session_fields)

lemma host_mounted_window: "contentWindow host_mounted 4"
  by (rule contentWindow_under_body) (simp_all add: host_mounted_fields)

lemma first_ready:
  "deliver idle (Data (Some ''ready'')) host_mounted =
     (host_mounted\<lparr>next_handle := 1, active_proxies := [0], providerProxyUninstaller := Some 0,
        message_listeners := [LoadListener 0, EventsListener],
        eventInited := (eventInited host_mounted)(0 := True)\<rparr>, [])"
  by (simp add: deliver_def call_listener_def host_mounted_fields
      ready_installs [OF host_mounted_fields(1,2) host_mounted_window host_mounted_fields(6)])

lemma after_first_ready_fields:
  "loaderElement after_first_ready = None"
  "iframe after_first_ready = Some 4"
  "parent after_first_ready 4 = Some 2"
  "parent after_first_ready 2 = Some 0"
  "next_node after_first_ready = 5"
  "type after_first_ready = ''modal''"
  "message_listeners after_first_ready = [LoadListener 0, EventsListener]"
  "eventInited after_first_ready 0"
  "active_proxies after_first_ready = [0]"
  "next_handle after_first_ready = 1"
  "providerProxyUninstaller after_first_ready = Some 0"
  by (simp_all add: after_first_ready_def first_ready host_mounted_fields)

lemma after_first_ready_window: "contentWindow after_first_ready 4"
  by (rule contentWindow_under_body) (simp_all add: after_first_ready_fields)

lemma second_ready:
  "deliver idle (Data (Some ''ready'')) after_first_ready =
     (after_first_ready\<lparr>next_handle := 2, active_proxies := [0, 1],
        providerProxyUninstaller := Some 1\<rparr>, [])"
proof -
  have "initLoad_handler 0 (Data (Some ''ready'')) after_first_ready =
     (after_first_ready\<lparr>next_handle := 2, active_proxies := [0, 1],
        providerProxyUninstaller := Some 1\<rparr>, None)"
    by (simp add: after_first_ready_fields fun_upd_idem
        ready_installs [OF after_first_ready_fields(1,2) after_first_ready_window
          after_first_ready_fields(6)])
  then show ?thesis
    by (simp add: deliver_def call_listener_def after_first_ready_fields handler_other)
qed

lemma after_second_ready_fields:
  "iframe after_second_ready = Some 4"
  "parent after_second_ready 4 = Some 2"
  "message_listeners after_second_ready = [LoadListener 0, EventsListener]"
  "active_proxies after_second_ready = [0, 1]"
  "providerProxyUninstaller after_second_ready = Some 1"
  by (simp_all add: after_second_ready_def second_ready after_first_ready_fields)

text \<open>
  Claim C1 fails on the code. On a modal session whose frame the host page has mounted
  itself (with the frame of \<^verbatim>\<open>getFlow\<close>), two \<^verbatim>\<open>ready\<close> messages in a row are both
  handled without an exception. The dispatcher is registered once. But the second
  \<^verbatim>\<open>ready\<close> installs a second proxy and overwrites the stored uninstaller of the
  first: two proxies are active, and \<^verbatim>\<open>closeFlow\<close> afterwards removes only the
  second.
\<close>

theorem double_ready_installs_twice:
  "snd (deliver idle (Data (Some ''ready'')) host_mounted) = [] \<and>
   active_proxies after_first_ready = [0] \<and>
   providerProxyUninstaller after_first_ready = Some 0 \<and>
   snd (deliver idle (Data (Some ''ready'')) after_first_ready) = [] \<and>
   message_listeners after_second_ready = [LoadListener 0, EventsListener] \<and>
   active_proxies after_second_ready = [0, 1] \<and>
   providerProxyUninstaller after_second_ready = Some 1 \<and>
   snd (closeFlow after_second_ready) = None \<and>
   active_proxies (fst (closeFlow after_second_ready)) = [0]"
proof -
  have ok: "snd (closeFlow after_second_ready) = None"
    by (simp add: closeFlow_error after_second_ready_fields)
  have "active_proxies (fst (closeFlow after_second_ready)) = [0]"
    using closeFlow_done(4) [OF ok] by (simp add: after_second_ready_fields)
  then show ?thesis
    by (simp add: ok first_ready second_ready after_second_ready_fields after_first_ready_fields)
qed

end
